theory Spec2Isabelle
  imports Complex_Main
begin

section \<open>JavaScript numbers\<close>

text \<open>
  A JavaScript number is modelled as an exact real or one of the three special values of
  IEEE arithmetic. Rounding, overflow and the sign of zero are not modelled: a finite
  operation on finite operands is the exact real operation, and a zero divisor counts as
  positive zero.
\<close>

datatype jsnum = Num real | PosInf | NegInf | NaN

fun jsign :: "jsnum \<Rightarrow> real" where
  "jsign (Num a) = sgn a"
| "jsign PosInf = 1"
| "jsign NegInf = - 1"
| "jsign NaN = 0"

definition of_sign :: "real \<Rightarrow> jsnum" where
  "of_sign s = (if s = 0 then NaN else if 0 < s then PosInf else NegInf)"

fun jneg :: "jsnum \<Rightarrow> jsnum" where
  "jneg (Num a) = Num (- a)"
| "jneg PosInf = NegInf"
| "jneg NegInf = PosInf"
| "jneg NaN = NaN"

fun jadd :: "jsnum \<Rightarrow> jsnum \<Rightarrow> jsnum" where
  "jadd NaN _ = NaN"
| "jadd _ NaN = NaN"
| "jadd (Num a) (Num b) = Num (a + b)"
| "jadd PosInf NegInf = NaN"
| "jadd NegInf PosInf = NaN"
| "jadd PosInf _ = PosInf"
| "jadd _ PosInf = PosInf"
| "jadd NegInf _ = NegInf"
| "jadd _ NegInf = NegInf"

definition jsub :: "jsnum \<Rightarrow> jsnum \<Rightarrow> jsnum" where
  "jsub a b = jadd a (jneg b)"

fun jmul :: "jsnum \<Rightarrow> jsnum \<Rightarrow> jsnum" where
  "jmul NaN _ = NaN"
| "jmul _ NaN = NaN"
| "jmul (Num a) (Num b) = Num (a * b)"
| "jmul a b = of_sign (jsign a * jsign b)"

fun jdiv :: "jsnum \<Rightarrow> jsnum \<Rightarrow> jsnum" where
  "jdiv NaN _ = NaN"
| "jdiv _ NaN = NaN"
| "jdiv (Num a) (Num b) = (if b = 0 then of_sign (sgn a) else Num (a / b))"
| "jdiv (Num a) _ = Num 0"
| "jdiv a (Num b) = of_sign (jsign a * (if b < 0 then - 1 else 1))"
| "jdiv _ _ = NaN"

fun jlt :: "jsnum \<Rightarrow> jsnum \<Rightarrow> bool" where
  "jlt NaN _ = False"
| "jlt _ NaN = False"
| "jlt (Num a) (Num b) = (a < b)"
| "jlt _ NegInf = False"
| "jlt PosInf _ = False"
| "jlt _ _ = True"

definition jgt :: "jsnum \<Rightarrow> jsnum \<Rightarrow> bool" where
  "jgt a b = jlt b a"

text \<open>Strict equality \<open>===\<close> on numbers: \<open>NaN\<close> equals nothing, itself included.\<close>

definition jseq :: "jsnum \<Rightarrow> jsnum \<Rightarrow> bool" where
  "jseq a b = (a \<noteq> NaN \<and> b \<noteq> NaN \<and> a = b)"

fun jsin :: "jsnum \<Rightarrow> jsnum" where
  "jsin (Num a) = Num (sin a)"
| "jsin _ = NaN"

fun jcos :: "jsnum \<Rightarrow> jsnum" where
  "jcos (Num a) = Num (cos a)"
| "jcos _ = NaN"

section \<open>makeWaveFunction\<close>

text \<open>
  The term object \<open>t\<close> has the keys \<open>'s' + i\<close> and \<open>'c' + i\<close>: a key is the
  letter with the index. Reading a key that is absent gives \<open>undefined\<close>, which the
  multiplication turns into \<open>NaN\<close>.
\<close>

type_synonym termSet = "char \<times> int \<rightharpoonup> jsnum"

definition tget :: "termSet \<Rightarrow> char \<Rightarrow> int \<Rightarrow> jsnum" where
  "tget t c i = (case t (c, i) of None \<Rightarrow> NaN | Some v \<Rightarrow> v)"

text \<open>The loop \<open>for(i = n; i >= 1; i--)\<close> with the accumulator \<open>y\<close>.\<close>

function wave_loop :: "termSet \<Rightarrow> jsnum \<Rightarrow> int \<Rightarrow> jsnum \<Rightarrow> jsnum" where
  "wave_loop t x i y =
     (if 1 \<le> i
      then wave_loop t x (i - 1)
             (jadd y (jadd (jmul (tget t CHR ''s'' i) (jsin (jmul (Num (of_int i)) x)))
                           (jmul (tget t CHR ''c'' i) (jcos (jmul (Num (of_int i)) x)))))
      else y)"
  by pat_completeness auto
termination
  by (relation "measure (\<lambda>(t, x, i, y). nat i)") auto

declare wave_loop.simps [simp del]

text \<open>
  The returned closure, applied to \<open>x\<close>: the value and the lines written to the console.
\<close>

definition makeWaveFunction :: "termSet \<Rightarrow> int \<Rightarrow> jsnum \<Rightarrow> jsnum \<times> string list" where
  "makeWaveFunction t n x =
     (let y = wave_loop t x n (Num 0)
      in (y, if jseq y NaN
             then [''error: wavefunction returned NaN. Did you set terms correctly?'']
             else []))"

section \<open>generateTerrain\<close>

text \<open>
  The options object. A numeric option is a finite number or is missing; \<open>None\<close> stands
  for a missing property and for \<open>NaN\<close> (what \<open>parseInt\<close> gives on a bad field), which
  the defaulting treats alike. \<open>numTerms\<close> is an integer, as the source documents it. An
  entry of \<open>zoneWidths\<close> is a finite number or \<open>NaN\<close> (\<open>None\<close>).
\<close>

record options =
  o_numTerms :: "int option"
  o_maxPhase :: "real option"
  o_numSamples :: "real option"
  o_scaleX :: "real option"
  o_scaleY :: "real option"
  o_offsetY :: "real option"
  o_maxDeviationX :: "real option"
  o_maxDeviationY :: "real option"
  o_numZones :: "real option"
  o_zoneWidths :: "real option list option"

text \<open>
  \<open>(options['f']) ? v = options.f : v = d\<close>: the default is taken when the property is
  missing and also when it is falsy, that is zero.
\<close>

definition dflt :: "'a::zero option \<Rightarrow> 'a \<Rightarrow> 'a" where
  "dflt v d = (case v of None \<Rightarrow> d | Some r \<Rightarrow> if r = 0 then d else r)"

text \<open>The local variables of \<open>generateTerrain\<close> that the sampling loop only reads.\<close>

record env =
  terms :: termSet
  numTerms :: int
  maxPhase :: real
  numSamples :: real
  scaleX :: real
  scaleY :: real
  offsetY :: real
  maxDevX :: real
  maxDevY :: real
  numZones :: real
  zoneWidths :: "real option list"

definition zoneSpacing :: "env \<Rightarrow> jsnum" where
  "zoneSpacing e = jdiv (Num (maxPhase e)) (Num (numZones e))"

definition da :: "env \<Rightarrow> jsnum" where
  "da e = jdiv (Num (maxPhase e)) (Num (numSamples e))"

definition dda :: "env \<Rightarrow> jsnum" where
  "dda e = jmul (da e) (Num (4 / 10))"


text \<open>The remainder operator \<open>%\<close> on integers: it truncates, the sign is the dividend's.\<close>

definition jsrem :: "int \<Rightarrow> int \<Rightarrow> int" where
  "jsrem m n = sgn m * (\<bar>m\<bar> mod \<bar>n\<bar>)"

text \<open>\<open>Math.floor(Math.random() * 100)\<close> and its remainder \<open>% m\<close>, on the draw \<open>r\<close>.\<close>

definition rand100 :: "real \<Rightarrow> int" where
  "rand100 r = \<lfloor>r * 100\<rfloor>"

definition rand_mod :: "real \<Rightarrow> int \<Rightarrow> int" where
  "rand_mod r m = jsrem (rand100 r) m"

text \<open>\<open>(Math.random() * 2) - 1\<close>, on the draw \<open>r\<close>.\<close>

definition spread :: "real \<Rightarrow> jsnum" where
  "spread r = jsub (jmul (Num r) (Num 2)) (Num 1)"

text \<open>The loop \<open>for(i = 1; i <= numTerms; i++)\<close> that draws the flags.\<close>

function gen_terms :: "(nat \<Rightarrow> real) \<Rightarrow> int \<Rightarrow> int \<Rightarrow> nat \<Rightarrow> termSet \<Rightarrow> termSet \<times> nat" where
  "gen_terms rnd n i k t =
     (if i \<le> n
      then gen_terms rnd n (i + 1) (k + 2)
             (t((CHR ''s'', i) \<mapsto> Num (of_int (rand_mod (rnd k) 2)),
                (CHR ''c'', i) \<mapsto> Num (of_int (rand_mod (rnd (k + 1)) 2))))
      else (t, k))"
  by pat_completeness auto
termination
  by (relation "measure (\<lambda>(rnd, n, i, k, t). nat (n + 1 - i))") auto

declare gen_terms.simps [simp del]

record coord =
  cx :: jsnum
  cy :: jsnum

text \<open>The variables the sampling loop changes, with the number of draws taken.\<close>

record state =
  a :: jsnum
  zonesPlaced :: nat
  terrain :: "coord list"
  drawn :: nat

text \<open>\<open>zoneWidths[i]\<close>: an index past the end reads \<open>undefined\<close>, \<open>NaN\<close> once added.\<close>

definition width_at :: "real option list \<Rightarrow> nat \<Rightarrow> jsnum" where
  "width_at ws i = (if i < length ws then (case ws ! i of None \<Rightarrow> NaN | Some w \<Rightarrow> Num w) else NaN)"

text \<open>The \<open>switch(zone)\<close>: no case matches a value outside 0, 1, 2.\<close>

definition zone_shift :: "real option list \<Rightarrow> int \<Rightarrow> jsnum \<Rightarrow> jsnum" where
  "zone_shift ws zone x =
     (if zone = 0 then jadd x (width_at ws 0)
      else if zone = 1 then jadd x (width_at ws 1)
      else if zone = 2 then jadd x (width_at ws 2)
      else x)"

text \<open>The test that a zone is due: \<open>((a / zoneSpacing) - zonesPlaced) > 0\<close>.\<close>

definition zone_due :: "env \<Rightarrow> state \<Rightarrow> bool" where
  "zone_due e s = jgt (jsub (jdiv (a s) (zoneSpacing e)) (Num (real (zonesPlaced s)))) (Num 0)"

text \<open>The draw that lets a due zone be placed: \<open>(Math.floor(Math.random() * 100) % 8) === 1\<close>.\<close>

definition zone_gate :: "real \<Rightarrow> bool" where
  "zone_gate r = (rand_mod r 8 = 1)"

text \<open>\<open>wave = makeWaveFunction(terms, numTerms)\<close>; nothing reads the console.\<close>

definition wave :: "env \<Rightarrow> jsnum \<Rightarrow> jsnum" where
  "wave e x = fst (makeWaveFunction (terms e) (numTerms e) x)"

text \<open>The sample pushed at the top of the loop body, from the draws \<open>ry\<close> and \<open>rx\<close>.\<close>

definition sample_at :: "env \<Rightarrow> jsnum \<Rightarrow> real \<Rightarrow> real \<Rightarrow> coord" where
  "sample_at e a0 ry rx =
     (let y = jsub (Num (offsetY e))
                (jmul (wave e a0) (Num (scaleY e)));
          x = jmul a0 (Num (scaleX e));
          y = jadd y (jmul (spread ry) (Num (maxDevY e)));
          x = jadd x (jmul (spread rx) (Num (maxDevX e)))
      in \<lparr>cx = x, cy = y\<rparr>)"

text \<open>One pass through the loop body; each \<open>continue\<close> returns the state as it is then.\<close>

definition body :: "env \<Rightarrow> (nat \<Rightarrow> real) \<Rightarrow> state \<Rightarrow> state" where
  "body e rnd s =
     (let c = sample_at e (a s) (rnd (drawn s)) (rnd (drawn s + 1));
          s1 = s\<lparr>terrain := terrain s @ [c], drawn := drawn s + 2\<rparr>
      in if jgt (Num (real (zonesPlaced s1))) (Num (numZones e)) then s1
         else if zone_due e s1 then
           (if \<not> zone_gate (rnd (drawn s1)) then s1\<lparr>drawn := drawn s1 + 1\<rparr>
            else
              let zone = rand_mod (rnd (drawn s1 + 1)) 3;
                  x = zone_shift (zoneWidths e) zone (cx c)
              in s1\<lparr>terrain := terrain s1 @ [\<lparr>cx = x, cy = cy c\<rparr>],
                     a := jdiv x (Num (scaleX e)),
                     zonesPlaced := zonesPlaced s1 + 1,
                     drawn := drawn s1 + 2\<rparr>)
         else s1)"

text \<open>The loop's update \<open>a += (da + (((Math.random() * 2) - 1) * dda))\<close>.\<close>

definition advance :: "env \<Rightarrow> (nat \<Rightarrow> real) \<Rightarrow> state \<Rightarrow> state" where
  "advance e rnd s =
     s\<lparr>a := jadd (a s) (jadd (da e) (jmul (spread (rnd (drawn s))) (dda e))),
       drawn := drawn s + 1\<rparr>"

text \<open>
  The loop \<open>for(a = 0; a < maxPhase; a += ...)\<close>. It need not end, so the model returns
  \<open>None\<close> when it does not.
\<close>

partial_function (option) sample_loop :: "env \<Rightarrow> (nat \<Rightarrow> real) \<Rightarrow> state \<Rightarrow> state option" where
  "sample_loop e rnd s =
     (if jlt (a s) (Num (maxPhase e)) then sample_loop e rnd (advance e rnd (body e rnd s))
      else Some s)"

text \<open>The defaulting of the options and the drawing of the terms.\<close>

definition mk_env :: "options \<Rightarrow> (nat \<Rightarrow> real) \<Rightarrow> env \<times> nat" where
  "mk_env opts rnd =
     (let n = dflt (o_numTerms opts) 3;
          (t, k) = gen_terms rnd n 1 0 Map.empty
      in (\<lparr>terms = t,
           numTerms = n,
           maxPhase = dflt (o_maxPhase opts) (2 * pi),
           numSamples = dflt (o_numSamples opts) 100,
           scaleX = dflt (o_scaleX opts) 100,
           scaleY = dflt (o_scaleY opts) 100,
           offsetY = dflt (o_offsetY opts) 0,
           maxDevX = dflt (o_maxDeviationX opts) 0,
           maxDevY = dflt (o_maxDeviationY opts) 0,
           numZones = dflt (o_numZones opts) 0,
           zoneWidths = (case o_zoneWidths opts of None \<Rightarrow> [Some 0, Some 0, Some 0] | Some ws \<Rightarrow> ws)\<rparr>,
          k))"

text \<open>The state in which the loop of \<open>generateTerrain\<close> stops.\<close>

definition final_state :: "options \<Rightarrow> (nat \<Rightarrow> real) \<Rightarrow> state option" where
  "final_state opts rnd =
     (let (e, k) = mk_env opts rnd
      in sample_loop e rnd \<lparr>a = Num 0, zonesPlaced = 0, terrain = [], drawn = k\<rparr>)"

definition generateTerrain :: "options \<Rightarrow> (nat \<Rightarrow> real) \<Rightarrow> coord list option" where
  "generateTerrain opts rnd = map_option terrain (final_state opts rnd)"

text \<open>
  The plain sampled sequence, for comparison: the same loop with the zone code (the lines
  from the test of \<open>zonesPlaced\<close> to the end of the body) left out.
\<close>

definition plain_body :: "env \<Rightarrow> (nat \<Rightarrow> real) \<Rightarrow> state \<Rightarrow> state" where
  "plain_body e rnd s =
     s\<lparr>terrain := terrain s @ [sample_at e (a s) (rnd (drawn s)) (rnd (drawn s + 1))],
       drawn := drawn s + 2\<rparr>"

partial_function (option) plain_loop :: "env \<Rightarrow> (nat \<Rightarrow> real) \<Rightarrow> state \<Rightarrow> state option" where
  "plain_loop e rnd s =
     (if jlt (a s) (Num (maxPhase e)) then plain_loop e rnd (advance e rnd (plain_body e rnd s))
      else Some s)"

definition plain_terrain :: "options \<Rightarrow> (nat \<Rightarrow> real) \<Rightarrow> coord list option" where
  "plain_terrain opts rnd =
     (let (e, k) = mk_env opts rnd
      in map_option terrain
           (plain_loop e rnd \<lparr>a = Num 0, zonesPlaced = 0, terrain = [], drawn = k\<rparr>))"

section \<open>Notions the properties are stated with\<close>

text \<open>A stream that always draws \<open>r\<close>, and one that draws the list \<open>xs\<close> and then always \<open>r\<close>.\<close>

definition always :: "real \<Rightarrow> nat \<Rightarrow> real" where
  "always r i = r"

definition draws_then :: "real list \<Rightarrow> real \<Rightarrow> nat \<Rightarrow> real" where
  "draws_then xs r i = (if i < length xs then xs ! i else r)"







definition plain_options :: options where
  "plain_options = \<lparr>o_numTerms = Some 1, o_maxPhase = Some 1, o_numSamples = Some 1,
     o_scaleX = None, o_scaleY = None, o_offsetY = None, o_maxDeviationX = None,
     o_maxDeviationY = None, o_numZones = None, o_zoneWidths = None\<rparr>"




section \<open>The wave function\<close>



lemma of_sign_simps [simp]: "of_sign 0 = NaN" "of_sign 1 = PosInf" "of_sign (- 1) = NegInf"
  by (simp_all add: of_sign_def)

lemma wave_loop_one:
  "wave_loop t x 1 y
     = jadd y (jadd (jmul (tget t CHR ''s'' 1) (jsin (jmul (Num 1) x)))
                    (jmul (tget t CHR ''c'' 1) (jcos (jmul (Num 1) x))))"
  by (simp add: wave_loop.simps[of _ _ 1] wave_loop.simps[of _ _ 0])



text \<open>
  C5. The test \<open>y === NaN\<close> is false for every \<open>y\<close>, so the warning is never written:
  on the angle \<open>Infinity\<close> the sum is \<open>NaN\<close> and the function returns it with an empty
  console.
\<close>

theorem makeWaveFunction_nan_silent:
  "makeWaveFunction [(CHR ''s'', 1) \<mapsto> Num 1, (CHR ''c'', 1) \<mapsto> Num 1] 1 PosInf = (NaN, [])"
  by (simp add: makeWaveFunction_def Let_def jseq_def wave_loop_one tget_def)

lemma makeWaveFunction_never_warns: "snd (makeWaveFunction t n x) = []"
  by (simp add: makeWaveFunction_def Let_def jseq_def)

section \<open>The sampling loop\<close>

lemma spread_Num: "spread r = Num (r * 2 - 1)"
  by (simp add: spread_def jsub_def)

lemma sample_loop_rule:
  assumes run: "sample_loop e rnd s = Some s'"
      and init: "I s"
      and step: "\<And>u. I u \<Longrightarrow> jlt (a u) (Num (maxPhase e)) \<Longrightarrow> I (advance e rnd (body e rnd u))"
  shows "I s' \<and> \<not> jlt (a s') (Num (maxPhase e))"
proof -
  have "e' = e \<longrightarrow> rnd' = rnd \<longrightarrow> I s \<longrightarrow> I s' \<and> \<not> jlt (a s') (Num (maxPhase e))"
    if "sample_loop e' rnd' s = Some s'" for e' rnd'
  proof (rule sample_loop.raw_induct[OF _ that, where P = "\<lambda>e' rnd' u r. e' = e \<longrightarrow> rnd' = rnd \<longrightarrow> I u \<longrightarrow> I r \<and> \<not> jlt (a r) (Num (maxPhase e))"])
    fix f e' rnd' u r
    assume IH: "\<And>e' rnd' u r. f e' rnd' u = Some r \<Longrightarrow> e' = e \<longrightarrow> rnd' = rnd \<longrightarrow> I u \<longrightarrow> I r \<and> \<not> jlt (a r) (Num (maxPhase e))"
      and eq: "(if jlt (a u) (Num (maxPhase e')) then f e' rnd' (advance e' rnd' (body e' rnd' u)) else Some u) = Some r"
    show "e' = e \<longrightarrow> rnd' = rnd \<longrightarrow> I u \<longrightarrow> I r \<and> \<not> jlt (a r) (Num (maxPhase e))"
    proof (intro impI)
      assume e: "e' = e" and r: "rnd' = rnd" and Iu: "I u"
      show "I r \<and> \<not> jlt (a r) (Num (maxPhase e))"
      proof (cases "jlt (a u) (Num (maxPhase e))")
        case True
        then have "f e rnd (advance e rnd (body e rnd u)) = Some r" using eq e r by simp
        from IH[OF this] step[OF Iu True] show ?thesis by simp
      next
        case False
        then show ?thesis using eq e Iu by simp
      qed
    qed
  qed
  then show ?thesis using run init by blast
qed

lemma body_cases [case_names plain zone]:
  fixes e rnd s
  defines "c \<equiv> sample_at e (a s) (rnd (drawn s)) (rnd (drawn s + 1))"
  defines "x \<equiv> zone_shift (zoneWidths e) (rand_mod (rnd (drawn s + 3)) 3) (cx c)"
  obtains
    (plain) "a (body e rnd s) = a s" "zonesPlaced (body e rnd s) = zonesPlaced s"
            "terrain (body e rnd s) = terrain s @ [c]"
  | (zone) "real (zonesPlaced s) \<le> numZones e" "zone_due e s" "zone_gate (rnd (drawn s + 2))"
           "a (body e rnd s) = jdiv x (Num (scaleX e))"
           "zonesPlaced (body e rnd s) = Suc (zonesPlaced s)"
           "terrain (body e rnd s) = terrain s @ [c, \<lparr>cx = x, cy = cy c\<rparr>]"
           "drawn (body e rnd s) = drawn s + 4"
proof (cases "\<not> real (zonesPlaced s) > numZones e \<and> zone_due e s \<and> zone_gate (rnd (drawn s + 2))")
  case True
  have "zone_due e (s\<lparr>terrain := terrain s @ [c], drawn := drawn s + 2\<rparr>)"
    using True by (simp add: zone_due_def)
  then show ?thesis
    using True
    by (intro zone) (simp_all add: body_def Let_def jgt_def c_def x_def eval_nat_numeral)
next
  case False
  have "zone_due e (s\<lparr>terrain := terrain s @ [c], drawn := drawn s + 2\<rparr>) = zone_due e s"
    by (simp add: zone_due_def)
  then show ?thesis
    using False
    by (intro plain) (auto simp add: body_def Let_def jgt_def c_def)
qed














lemma mk_env_fields:
  "numTerms (fst (mk_env opts rnd)) = dflt (o_numTerms opts) 3"
  "maxPhase (fst (mk_env opts rnd)) = dflt (o_maxPhase opts) (2 * pi)"
  "numSamples (fst (mk_env opts rnd)) = dflt (o_numSamples opts) 100"
  "scaleX (fst (mk_env opts rnd)) = dflt (o_scaleX opts) 100"
  "scaleY (fst (mk_env opts rnd)) = dflt (o_scaleY opts) 100"
  "offsetY (fst (mk_env opts rnd)) = dflt (o_offsetY opts) 0"
  "maxDevX (fst (mk_env opts rnd)) = dflt (o_maxDeviationX opts) 0"
  "maxDevY (fst (mk_env opts rnd)) = dflt (o_maxDeviationY opts) 0"
  "numZones (fst (mk_env opts rnd)) = dflt (o_numZones opts) 0"
  "zoneWidths (fst (mk_env opts rnd))
     = (case o_zoneWidths opts of None \<Rightarrow> [Some 0, Some 0, Some 0] | Some ws \<Rightarrow> ws)"
  by (simp_all add: mk_env_def Let_def split_beta)

lemma final_state_unfold:
  "final_state opts rnd
     = sample_loop (fst (mk_env opts rnd)) rnd
         \<lparr>a = Num 0, zonesPlaced = 0, terrain = [], drawn = snd (mk_env opts rnd)\<rparr>"
  by (simp add: final_state_def split_beta)




section \<open>Example runs\<close>

lemmas run_simps = mk_env_def gen_terms.simps dflt_def Let_def
  body_def advance_def sample_at_def wave_def makeWaveFunction_def wave_loop.simps tget_def spread_Num
  da_def dda_def zoneSpacing_def zone_due_def jgt_def jsub_def rand_mod_def rand100_def jsrem_def
  zone_gate_def zone_shift_def width_at_def jseq_def always_def draws_then_def

lemma plain_run:
  "final_state plain_options (always 0)
     = Some \<lparr>a = Num (6 / 5), zonesPlaced = 0,
             terrain = [\<lparr>cx = Num 0, cy = Num 0\<rparr>, \<lparr>cx = Num 60, cy = Num 0\<rparr>], drawn = 8\<rparr>"
  by (simp add: final_state_def plain_options_def run_simps sample_loop.simps)






section \<open>Runs without zones\<close>

lemma no_zone_due:
  assumes "numZones e = 0" "zonesPlaced s = 0"
  shows "\<not> zone_due e s"
proof -
  have "zoneSpacing e = NaN \<or> zoneSpacing e = PosInf \<or> zoneSpacing e = NegInf"
    using assms(1) by (simp add: zoneSpacing_def of_sign_def)
  then show ?thesis
    using assms(2) by (cases "a s") (auto simp add: zone_due_def jgt_def jsub_def)
qed

lemma body_plain:
  assumes "numZones e = 0" "zonesPlaced s = 0"
  shows "body e rnd s = plain_body e rnd s"
proof -
  have "\<not> zone_due e (s\<lparr>terrain := terrain s @ [sample_at e (a s) (rnd (drawn s)) (rnd (drawn s + 1))],
                          drawn := drawn s + 2\<rparr>)"
    using assms by (intro no_zone_due) simp_all
  then show ?thesis using assms by (simp add: body_def plain_body_def Let_def jgt_def)
qed

lemma plain_step_zones: "zonesPlaced (advance e rnd (plain_body e rnd s)) = zonesPlaced s"
  by (simp add: advance_def plain_body_def)

lemma sample_loop_plain:
  assumes nz: "numZones e = 0"
  shows "sample_loop e rnd s = Some r \<Longrightarrow> zonesPlaced s = 0 \<Longrightarrow> plain_loop e rnd s = Some r"
proof -
  have "e' = e \<longrightarrow> zonesPlaced s = 0 \<longrightarrow> plain_loop e' rnd' s = Some r"
    if "sample_loop e' rnd' s = Some r" for e' rnd'
  proof (rule sample_loop.raw_induct[OF _ that, where P = "\<lambda>e' rnd' u r. e' = e \<longrightarrow> zonesPlaced u = 0 \<longrightarrow> plain_loop e' rnd' u = Some r"])
    fix f e' rnd' u r
    assume IH: "\<And>e' rnd' u r. f e' rnd' u = Some r \<Longrightarrow> e' = e \<longrightarrow> zonesPlaced u = 0 \<longrightarrow> plain_loop e' rnd' u = Some r"
      and eq: "(if jlt (a u) (Num (maxPhase e')) then f e' rnd' (advance e' rnd' (body e' rnd' u)) else Some u) = Some r"
    show "e' = e \<longrightarrow> zonesPlaced u = 0 \<longrightarrow> plain_loop e' rnd' u = Some r"
    proof (intro impI)
      assume e: "e' = e" and z: "zonesPlaced u = 0"
      show "plain_loop e' rnd' u = Some r"
      proof (cases "jlt (a u) (Num (maxPhase e))")
        case True
        then have "f e rnd' (advance e rnd' (plain_body e rnd' u)) = Some r"
          using eq e body_plain[OF nz z] by simp
        from IH[OF this] z have "plain_loop e rnd' (advance e rnd' (plain_body e rnd' u)) = Some r"
          by (simp add: plain_step_zones)
        then show ?thesis using True e by (subst plain_loop.simps) simp
      next
        case False
        then show ?thesis using eq e by (subst plain_loop.simps) simp
      qed
    qed
  qed
  then show "sample_loop e rnd s = Some r \<Longrightarrow> zonesPlaced s = 0 \<Longrightarrow> plain_loop e rnd s = Some r"
    by blast
qed

lemma plain_loop_sample:
  assumes nz: "numZones e = 0"
  shows "plain_loop e rnd s = Some r \<Longrightarrow> zonesPlaced s = 0 \<Longrightarrow> sample_loop e rnd s = Some r"
proof -
  have "e' = e \<longrightarrow> zonesPlaced s = 0 \<longrightarrow> sample_loop e' rnd' s = Some r"
    if "plain_loop e' rnd' s = Some r" for e' rnd'
  proof (rule plain_loop.raw_induct[OF _ that, where P = "\<lambda>e' rnd' u r. e' = e \<longrightarrow> zonesPlaced u = 0 \<longrightarrow> sample_loop e' rnd' u = Some r"])
    fix f e' rnd' u r
    assume IH: "\<And>e' rnd' u r. f e' rnd' u = Some r \<Longrightarrow> e' = e \<longrightarrow> zonesPlaced u = 0 \<longrightarrow> sample_loop e' rnd' u = Some r"
      and eq: "(if jlt (a u) (Num (maxPhase e')) then f e' rnd' (advance e' rnd' (plain_body e' rnd' u)) else Some u) = Some r"
    show "e' = e \<longrightarrow> zonesPlaced u = 0 \<longrightarrow> sample_loop e' rnd' u = Some r"
    proof (intro impI)
      assume e: "e' = e" and z: "zonesPlaced u = 0"
      show "sample_loop e' rnd' u = Some r"
      proof (cases "jlt (a u) (Num (maxPhase e))")
        case True
        then have "f e rnd' (advance e rnd' (plain_body e rnd' u)) = Some r"
          using eq e by simp
        from IH[OF this] z have "sample_loop e rnd' (advance e rnd' (plain_body e rnd' u)) = Some r"
          by (simp add: plain_step_zones)
        then show ?thesis using True e body_plain[OF nz z] by (subst sample_loop.simps) simp
      next
        case False
        then show ?thesis using eq e by (subst sample_loop.simps) simp
      qed
    qed
  qed
  then show "plain_loop e rnd s = Some r \<Longrightarrow> zonesPlaced s = 0 \<Longrightarrow> sample_loop e rnd s = Some r"
    by blast
qed

lemma loops_agree:
  assumes "numZones e = 0" "zonesPlaced s = 0"
  shows "sample_loop e rnd s = plain_loop e rnd s"
proof (cases "sample_loop e rnd s")
  case None
  then show ?thesis using plain_loop_sample[OF assms(1) _ assms(2), of rnd]
    by (cases "plain_loop e rnd s") auto
next
  case (Some r)
  then show ?thesis using sample_loop_plain[OF assms(1) Some assms(2)] by simp
qed

lemma dflt_zero_iff: "dflt v 0 = 0 \<longleftrightarrow> v = None \<or> v = Some 0"
  by (auto simp add: dflt_def split: option.splits)

text \<open>
  C7. With \<open>numZones\<close> zero (or missing, which defaults to zero) the zone branch never runs:
  \<open>zoneSpacing\<close> is an infinity, \<open>a / zoneSpacing\<close> is zero or \<open>NaN\<close>, and the test
  \<open>> 0\<close> fails, so \<open>zonesPlaced\<close> stays zero, the angle is only changed by the loop's
  update, and the output is the plain sampled sequence.
\<close>

theorem no_zones_plain:
  assumes "o_numZones opts = None \<or> o_numZones opts = Some 0"
  shows "generateTerrain opts rnd = plain_terrain opts rnd
         \<and> (\<forall>s. final_state opts rnd = Some s \<longrightarrow> zonesPlaced s = 0)"
proof -
  let ?e = "fst (mk_env opts rnd)"
  let ?s0 = "\<lparr>a = Num 0, zonesPlaced = 0, terrain = [], drawn = snd (mk_env opts rnd)\<rparr>"
  have nz: "numZones ?e = 0" using assms by (auto simp add: mk_env_fields dflt_def)
  have "sample_loop ?e rnd ?s0 = plain_loop ?e rnd ?s0" using nz by (intro loops_agree) simp_all
  then have 1: "generateTerrain opts rnd = plain_terrain opts rnd"
    by (simp add: generateTerrain_def plain_terrain_def final_state_unfold split_beta)
  have 2: "zonesPlaced s = 0" if "final_state opts rnd = Some s" for s
  proof -
    have "sample_loop ?e rnd ?s0 = Some s" using that by (simp add: final_state_unfold)
    from sample_loop_rule[OF this, where I = "\<lambda>u. zonesPlaced u = 0"]
    show ?thesis using body_plain[OF nz] by (simp add: plain_step_zones)
  qed
  show ?thesis using 1 2 by blast
qed

theorem no_zones_plain_witness:
  "o_numZones plain_options = None
   \<and> generateTerrain plain_options (always 0) = plain_terrain plain_options (always 0)
   \<and> final_state plain_options (always 0)
        = Some \<lparr>a = Num (6 / 5), zonesPlaced = 0,
                terrain = [\<lparr>cx = Num 0, cy = Num 0\<rparr>, \<lparr>cx = Num 60, cy = Num 0\<rparr>], drawn = 8\<rparr>
   \<and> zonesPlaced \<lparr>a = Num (6 / 5), zonesPlaced = 0,
                terrain = [\<lparr>cx = Num 0, cy = Num 0\<rparr>, \<lparr>cx = Num 60, cy = Num 0\<rparr>], drawn = 8\<rparr> = 0"
proof -
  have 1: "o_numZones plain_options = None" by (simp add: plain_options_def)
  from no_zones_plain[of plain_options "always 0"] 1 plain_run show ?thesis by blast
qed

section \<open>The drawn terms\<close>






section \<open>The first coordinate\<close>







section \<open>The number of zones\<close>




lemma body_length:
  "length (terrain (body e rnd s))
     = length (terrain s) + 1 + (zonesPlaced (body e rnd s) - zonesPlaced s)"
  by (cases e rnd s rule: body_cases) simp_all




section \<open>The number of samples\<close>







section \<open>Coordinates and the base curve\<close>


lemma rand100_range: "0 \<le> r \<Longrightarrow> r < 1 \<Longrightarrow> 0 \<le> rand100 r \<and> rand100 r < 100"
  by (simp add: rand100_def floor_less_iff)












section \<open>A run that places a zone\<close>








section \<open>The chances of a zone\<close>


lemma rand100_interval: "rand100 r = n \<longleftrightarrow> real_of_int n / 100 \<le> r \<and> r < (real_of_int n + 1) / 100"
  by (simp add: rand100_def floor_eq_iff field_simps)







end
